theory Spec2Isabelle
  imports Main
begin

section \<open>Data model\<close>

text \<open>
  The get-or-compute handler of the cache, \<^verbatim>\<open>GetSetHandler\<close> in
  \<^verbatim>\<open>src/cache/get_set_handler.ts\<close>, is embedded as pure functions. Every call
  the handler makes on a collaborator (the two tiers, the lock registry, the factory
  runner, the emitter and the logger) is recorded, in program order, as an \<open>action\<close>;
  what the collaborator answers (a value, or the error it throws) is read from an
  environment record. A promise is the pair of its settled result (\<open>Inl\<close> the rejection,
  \<open>Inr\<close> the value) and the actions performed until it settled.
\<close>

type_synonym key = string
type_synonym payload = string

text \<open>The failure kinds of the error taxonomy, and any other thrown value.\<close>

datatype error =
    LockTimeout
  | FactorySoftTimeout
  | FactoryHardTimeout
  | FactoryError string
  | DriverError string
  | OtherError string

record cache_item =
  itemKey :: key
  itemValue :: payload
  logicalExpiresAt :: nat
  physicalExpiresAt :: nat
  earlyExpirationAt :: "nat option"

record grace_period =
  enabled :: bool
  duration :: nat
  fallbackDuration :: "nat option"

record factory_timeouts =
  soft :: "nat option"
  hard :: "nat option"

record cache_item_options =
  opId :: string
  ttl :: nat
  gracePeriod :: grace_period
  timeouts :: factory_timeouts

text \<open>The stack: its name and which of the two optional tiers are configured.\<close>

record cache_stack =
  stackName :: string
  hasL1 :: bool
  hasL2 :: bool

datatype serialized = Serialized cache_item

text \<open>\<^verbatim>\<open>new events.CacheHit(key, value, store, graced?)\<close>; the last argument is optional.\<close>

datatype cache_event = CacheHit key payload string "bool option"

datatype level = LTrace | LDebug | LError

text \<open>
  The calls the handler itself makes, one constructor per callee:
  \<^item> \<open>L1Get\<close>, \<open>L2Get\<close>, \<open>L1Set\<close>: \<^verbatim>\<open>stack.l1.get\<close>, \<^verbatim>\<open>stack.l2.get\<close>,
    \<^verbatim>\<open>stack.l1.set(key, item.serialize(), options)\<close>;
  \<^item> \<open>StackWriterSet\<close>: \<^verbatim>\<open>stackWriter.set(key, value, options)\<close>, the write-through
    (L2, then L1);
  \<^item> \<open>GetOrCreateForKey\<close>, \<open>IsLocked\<close>, \<open>Acquire\<close>: \<^verbatim>\<open>locks.getOrCreateForKey(key, timeout)\<close>,
    \<^verbatim>\<open>lock.isLocked()\<close>, \<^verbatim>\<open>lock.acquire()\<close>;
  \<^item> \<open>LocksRelease\<close>: \<^verbatim>\<open>locks.release(key, releaser)\<close>, called by the handler;
    \<open>MutexRelease\<close>: the release that \<^verbatim>\<open>runExclusive\<close> performs itself;
  \<^item> \<open>RunFactory\<close>: \<^verbatim>\<open>factoryRunner.run(key, factory, hasFallback, options, releaser)\<close>,
    with all that the runner does inside (the factory, the write-through, a release of
    its own); \<open>CallFactory\<close>: \<^verbatim>\<open>factory()\<close> called directly;
  \<^item> \<open>Spawn\<close>: the call of \<^verbatim>\<open>#earlyExpirationRefresh\<close> that is not awaited;
  \<^item> \<open>Emit\<close>, \<open>Log\<close>: the emitter and the logger.
\<close>

datatype action =
    L1Get key
  | L2Get key
  | L1Set key serialized
  | StackWriterSet key payload
  | GetOrCreateForKey key "nat option"
  | IsLocked key
  | Acquire key
  | LocksRelease key
  | MutexRelease key
  | RunFactory key bool
  | CallFactory
  | Spawn key
  | Emit cache_event
  | Log level string

type_synonym 'a outcome = "(error + 'a) \<times> action list"

text \<open>
  What the collaborators answer during one call of \<^verbatim>\<open>handle\<close>, and the clock.
  The clock is read by \<^verbatim>\<open>CacheItem\<close>'s methods; it has one value in each
  synchronous stretch of the handler and never goes back (the data model's monotonic
  timestamps): the environment gives the time of the first stretch and the time that
  passes at each later \<^verbatim>\<open>await\<close>.
\<close>

record env =
  l1GetFirst :: "error + cache_item option"
  clockFirst :: nat
  lockAcquire :: "error + unit"
  elapsedAcquire :: nat
  l1GetSecond :: "error + cache_item option"
  elapsedSecondRead :: nat
  l2GetResult :: "error + cache_item option"
  elapsedRemoteRead :: nat
  factoryRun :: "error + payload"
  elapsedFactory :: nat
  l1SetResult :: "error + bool"

text \<open>The clock after the first L1 read (lines 163 to 176).\<close>

definition nowFirst :: "env \<Rightarrow> nat" where
  "nowFirst e = clockFirst e"

text \<open>The clock when the acquisition has settled (line 178, or line 181).\<close>

definition nowLockFailed :: "env \<Rightarrow> nat" where
  "nowLockFailed e = nowFirst e + elapsedAcquire e"

text \<open>The clock after the second L1 read (lines 188 to 198).\<close>

definition nowSecond :: "env \<Rightarrow> nat" where
  "nowSecond e = nowLockFailed e + elapsedSecondRead e"

text \<open>The clock after the L2 read (lines 199 to 205).\<close>

definition nowRemote :: "env \<Rightarrow> nat" where
  "nowRemote e = nowSecond e + elapsedRemoteRead e"

text \<open>The clock when the factory run has failed (lines 206 to 231).\<close>

definition nowFailed :: "env \<Rightarrow> nat" where
  "nowFailed e = nowRemote e + elapsedFactory e"

text \<open>What the collaborators answer to the background task \<^verbatim>\<open>#earlyExpirationRefresh\<close>.\<close>

record refresh_env =
  lockIsLocked :: bool
  exclusiveAcquire :: "error + unit"
  factoryResult :: "error + payload"
  writerSetResult :: "error + unit"

section \<open>CacheItem and CacheItemOptions\<close>

definition getValue :: "cache_item \<Rightarrow> payload" where
  "getValue item = itemValue item"

text \<open>
  Modelled from the spec: \<^verbatim>\<open>cache_item.ts\<close> is not among the sources.
  \<open>isLogicallyExpired() \<equiv> now \<ge> logicalExpiresAt\<close>.
\<close>

definition isLogicallyExpired :: "nat \<Rightarrow> cache_item \<Rightarrow> bool" where
  "isLogicallyExpired now item = (logicalExpiresAt item \<le> now)"

text \<open>
  Modelled from the spec: \<open>isEarlyExpired() \<equiv> earlyExpirationAt \<noteq> \<emptyset> \<and> now \<ge> earlyExpirationAt
  \<and> \<not> isLogicallyExpired()\<close>.
\<close>

definition isEarlyExpired :: "nat \<Rightarrow> cache_item \<Rightarrow> bool" where
  "isEarlyExpired now item =
     (case earlyExpirationAt item of
        None \<Rightarrow> False
      | Some t \<Rightarrow> t \<le> now \<and> \<not> isLogicallyExpired now item)"

text \<open>
  Modelled from the spec: \<^verbatim>\<open>applyFallbackDuration\<close> returns a new item whose
  logical expiry is extended by the fallback duration, counted from now (scenario 4: a
  fallback-extended logical expiry of now+2000); the physical expiry is bumped likewise
  where it would fall behind, so that it stays at or after the logical one.
\<close>

definition applyFallbackDuration :: "nat \<Rightarrow> cache_item \<Rightarrow> nat \<Rightarrow> cache_item" where
  "applyFallbackDuration now item d =
     item\<lparr>logicalExpiresAt := now + d,
          physicalExpiresAt := max (physicalExpiresAt item) (now + d)\<rparr>"

definition serialize :: "cache_item \<Rightarrow> serialized" where
  "serialize item = Serialized item"

text \<open>
  Modelled from the spec: \<^verbatim>\<open>cache_item_options.ts\<close> is not among the sources; the
  spec has one grace switch, \<open>gracePeriod.enabled\<close>.
\<close>

definition isGracePeriodEnabled :: "cache_item_options \<Rightarrow> bool" where
  "isGracePeriodEnabled opts = enabled (gracePeriod opts)"

text \<open>
  Modelled from the spec: \<open>getApplicableLockTimeout(hasFallback)\<close> returns \<open>soft\<close> when a
  fallback value exists and grace is enabled, otherwise \<open>hard\<close> or none.
\<close>

definition getApplicableLockTimeout :: "cache_item_options \<Rightarrow> bool \<Rightarrow> nat option" where
  "getApplicableLockTimeout opts hasFallback =
     (if hasFallback \<and> isGracePeriodEnabled opts then soft (timeouts opts)
      else hard (timeouts opts))"

section \<open>Sequencing and the optional tiers\<close>

text \<open>The operator \<^verbatim>\<open>??\<close> on a possibly undefined item.\<close>

definition orElse :: "'a option \<Rightarrow> 'a option \<Rightarrow> 'a option" where
  "orElse a b = (case a of Some x \<Rightarrow> Some x | None \<Rightarrow> b)"

text \<open>Actions already performed, followed by a computation.\<close>

definition after :: "action list \<Rightarrow> 'a outcome \<Rightarrow> 'a outcome" where
  "after tr m = (fst m, tr @ snd m)"

text \<open>\<^verbatim>\<open>await this.stack.l1?.get(key, options)\<close>: undefined, and no call, without an L1.\<close>

definition l1Get :: "cache_stack \<Rightarrow> key \<Rightarrow> (error + cache_item option) \<Rightarrow> cache_item option outcome" where
  "l1Get st k answer = (if hasL1 st then (answer, [L1Get k]) else (Inr None, []))"

text \<open>\<^verbatim>\<open>await this.stack.l2?.get(key, options)\<close>.\<close>

definition l2Get :: "cache_stack \<Rightarrow> key \<Rightarrow> (error + cache_item option) \<Rightarrow> cache_item option outcome" where
  "l2Get st k answer = (if hasL2 st then (answer, [L2Get k]) else (Inr None, []))"

text \<open>\<^verbatim>\<open>await this.stack.l1?.set(key, value, options)\<close>; the boolean it resolves to is dropped.\<close>

definition l1Set :: "cache_stack \<Rightarrow> key \<Rightarrow> serialized \<Rightarrow> (error + bool) \<Rightarrow> unit outcome" where
  "l1Set st k v answer =
     (if hasL1 st
      then ((case answer of Inl err \<Rightarrow> Inl err | Inr _ \<Rightarrow> Inr ()), [L1Set k v])
      else (Inr (), []))"

section \<open>GetSetHandler\<close>

text \<open>\<^verbatim>\<open>#returnLocalCacheValue(key, item, options, logMsg?)\<close>, lines 78 to 86.\<close>

definition returnLocalCacheValue ::
  "cache_stack \<Rightarrow> nat \<Rightarrow> key \<Rightarrow> cache_item \<Rightarrow> string option \<Rightarrow> payload outcome" where
  "returnLocalCacheValue st now k item logMsg =
     (let expired = isLogicallyExpired now item;
          msg = (case logMsg of None \<Rightarrow> ''local cache hit'' | Some m \<Rightarrow> m)
      in (Inr (getValue item),
          [Emit (CacheHit k (getValue item) (stackName st) (Some expired)),
           Log LTrace msg]))"

text \<open>\<^verbatim>\<open>#returnRemoteCacheValue(key, item, options)\<close>, lines 91 to 98.\<close>

definition returnRemoteCacheValue ::
  "env \<Rightarrow> cache_stack \<Rightarrow> key \<Rightarrow> cache_item \<Rightarrow> payload outcome" where
  "returnRemoteCacheValue e st k item =
     after [Log LTrace ''remote cache hit'']
       (case l1Set st k (serialize item) (l1SetResult e) of
          (Inl err, tr) \<Rightarrow> (Inl err, tr)
        | (Inr _, tr) \<Rightarrow>
            (Inr (getValue item),
             tr @ [Emit (CacheHit k (getValue item) (stackName st) None)]))"

text \<open>\<^verbatim>\<open>#acquireLock(key, hasFallback, options)\<close>, lines 106 to 109.\<close>

definition acquireLock ::
  "env \<Rightarrow> key \<Rightarrow> bool \<Rightarrow> cache_item_options \<Rightarrow> unit outcome" where
  "acquireLock e k hasFallback opts =
     (lockAcquire e,
      [GetOrCreateForKey k (getApplicableLockTimeout opts hasFallback), Acquire k])"

text \<open>\<^verbatim>\<open>#returnGracedValueOrThrow(key, item, options, err)\<close>, lines 111 to 122.\<close>

definition returnGracedValueOrThrow ::
  "cache_stack \<Rightarrow> nat \<Rightarrow> key \<Rightarrow> cache_item option \<Rightarrow> cache_item_options \<Rightarrow> error
     \<Rightarrow> payload outcome" where
  "returnGracedValueOrThrow st now k item opts err =
     (if isGracePeriodEnabled opts \<and> item \<noteq> None
      then returnLocalCacheValue st now k (the item) (Some ''local cache hit (graced)'')
      else (Inl err, []))"

text \<open>
  \<^verbatim>\<open>#applyFallbackAndReturnGracedValue(key, item, options)\<close>, lines 124 to 145. The
  test \<^verbatim>\<open>options.gracePeriod.fallbackDuration\<close> is on the truth value of a number: an
  undefined duration and the duration 0 both skip the rewrite.
\<close>

definition applyFallbackAndReturnGracedValue ::
  "env \<Rightarrow> cache_stack \<Rightarrow> key \<Rightarrow> cache_item \<Rightarrow> cache_item_options \<Rightarrow> payload outcome" where
  "applyFallbackAndReturnGracedValue e st k item opts =
     (case (case fallbackDuration (gracePeriod opts) of
              None \<Rightarrow> (Inr (), [])
            | Some d \<Rightarrow>
                if enabled (gracePeriod opts) \<and> d \<noteq> 0
                then after [Log LTrace ''apply fallback duration'']
                       (l1Set st k (serialize (applyFallbackDuration (nowFailed e) item d))
                          (l1SetResult e))
                else (Inr (), [])) of
        (Inl err, tr) \<Rightarrow> (Inl err, tr)
      | (Inr _, tr) \<Rightarrow>
          (Inr (getValue item),
           tr @ [Log LTrace ''returns stale value'',
                 Emit (CacheHit k (getValue item) (stackName st) (Some True))]))"

text \<open>\<^verbatim>\<open>#isItemValid(item)\<close>, lines 150 to 152.\<close>

definition isItemValid :: "nat \<Rightarrow> cache_item option \<Rightarrow> bool" where
  "isItemValid now item =
     (case item of None \<Rightarrow> False | Some i \<Rightarrow> \<not> isLogicallyExpired now i)"

text \<open>
  The \<^verbatim>\<open>catch\<close> block of \<^verbatim>\<open>handle\<close>, lines 206 to 231: \<open>localItem\<close> is the item
  of the second L1 read, \<open>remoteItem\<close> the item of the L2 read.
\<close>

definition handleFactoryFailure ::
  "env \<Rightarrow> cache_stack \<Rightarrow> key \<Rightarrow> cache_item_options \<Rightarrow> cache_item option
     \<Rightarrow> cache_item option \<Rightarrow> error \<Rightarrow> payload outcome" where
  "handleFactoryFailure e st k opts localItem remoteItem err =
     (if err = FactorySoftTimeout \<and> localItem \<noteq> None
      then returnGracedValueOrThrow st (nowFailed e) k localItem opts err
      else after [Log LTrace ''factory error'']
        (let staleItem = orElse remoteItem localItem
         in if staleItem \<noteq> None \<and> isGracePeriodEnabled opts
            then after [LocksRelease k]
                   (applyFallbackAndReturnGracedValue e st k (the staleItem) opts)
            else (Inl err, [LocksRelease k])))"

text \<open>
  \<^verbatim>\<open>handle\<close> once the lock is held, lines 181 to 205. The factory runner
  (\<^verbatim>\<open>factory_runner.ts\<close>) is not among the sources: its call is one action, and how the
  call settles is read from the environment.
\<close>

definition handleLocked ::
  "env \<Rightarrow> cache_stack \<Rightarrow> key \<Rightarrow> cache_item_options \<Rightarrow> payload outcome" where
  "handleLocked e st k opts =
     after [Log LTrace ''acquired lock'']
       (case l1Get st k (l1GetSecond e) of
          (Inl err, tr1) \<Rightarrow> (Inl err, tr1)
        | (Inr localItem, tr1) \<Rightarrow>
            if isItemValid (nowSecond e) localItem
            then after (tr1 @ [LocksRelease k])
                   (returnLocalCacheValue st (nowSecond e) k (the localItem)
                      (Some ''local cache hit after lock''))
            else
              (case l2Get st k (l2GetResult e) of
                 (Inl err, tr2) \<Rightarrow> (Inl err, tr1 @ tr2)
               | (Inr remoteItem, tr2) \<Rightarrow>
                   if isItemValid (nowRemote e) remoteItem
                   then after (tr1 @ tr2 @ [LocksRelease k])
                          (returnRemoteCacheValue e st k (the remoteItem))
                   else
                     (case factoryRun e of
                        Inr v \<Rightarrow> (Inr v, tr1 @ tr2 @ [RunFactory k (localItem \<noteq> None)])
                      | Inl err \<Rightarrow>
                          after (tr1 @ tr2 @ [RunFactory k (localItem \<noteq> None)])
                            (handleFactoryFailure e st k opts localItem remoteItem err))))"

text \<open>
  \<^verbatim>\<open>handle(key, factory, options)\<close>, lines 154 to 232. The early refresh is called
  and not awaited: the call is the action \<open>Spawn\<close>, and the task is
  \<open>earlyExpirationRefresh\<close> below.
\<close>

definition handle ::
  "env \<Rightarrow> cache_stack \<Rightarrow> key \<Rightarrow> cache_item_options \<Rightarrow> payload outcome" where
  "handle e st k opts =
     (case l1Get st k (l1GetFirst e) of
        (Inl err, tr0) \<Rightarrow> (Inl err, tr0)
      | (Inr localItem, tr0) \<Rightarrow>
          if isItemValid (nowFirst e) localItem
          then after (tr0 @ (if isEarlyExpired (nowFirst e) (the localItem) then [Spawn k] else []))
                 (returnLocalCacheValue st (nowFirst e) k (the localItem) None)
          else
            (case acquireLock e k (localItem \<noteq> None) opts of
               (Inl err, trA) \<Rightarrow>
                 after (tr0 @ trA)
                   (returnGracedValueOrThrow st (nowLockFailed e) k localItem opts err)
             | (Inr releaser, trA) \<Rightarrow>
                 after (tr0 @ trA) (handleLocked e st k opts)))"

text \<open>
  \<^verbatim>\<open>lock.runExclusive(callback)\<close> of the mutex: acquire, run the callback, release
  whether the callback returned or threw, and settle as the callback did.
\<close>

definition runExclusive :: "refresh_env \<Rightarrow> key \<Rightarrow> unit outcome \<Rightarrow> unit outcome" where
  "runExclusive r k body =
     (case exclusiveAcquire r of
        Inl err \<Rightarrow> (Inl err, [Acquire k])
      | Inr _ \<Rightarrow> (fst body, [Acquire k] @ snd body @ [MutexRelease k]))"

text \<open>\<^verbatim>\<open>#earlyExpirationRefresh(key, factory, options)\<close>, lines 46 to 73.\<close>

definition earlyExpirationRefresh ::
  "refresh_env \<Rightarrow> cache_stack \<Rightarrow> key \<Rightarrow> cache_item_options \<Rightarrow> unit outcome" where
  "earlyExpirationRefresh r st k opts =
     after [Log LDebug ''try to early refresh'', GetOrCreateForKey k None, IsLocked k]
       (if lockIsLocked r then (Inr (), [])
        else
          (case runExclusive r k
                  (after [Log LTrace ''acquired lock for refresh'', CallFactory]
                     (case factoryResult r of
                        Inl err \<Rightarrow> (Inl err, [])
                      | Inr v \<Rightarrow> (writerSetResult r, [StackWriterSet k v]))) of
             (Inl err, tr) \<Rightarrow> (Inl err, tr @ [Log LError ''factory error in early refresh''])
           | (Inr u, tr) \<Rightarrow> (Inr u, tr)))"

text \<open>
  One call of \<^verbatim>\<open>handle\<close> together with the task it spawned, if any: the foreground
  promise, and the promise of the early refresh that nobody awaits.
\<close>

definition handleWithBackground ::
  "env \<Rightarrow> refresh_env \<Rightarrow> cache_stack \<Rightarrow> key \<Rightarrow> cache_item_options
     \<Rightarrow> payload outcome \<times> unit outcome option" where
  "handleWithBackground e r st k opts =
     (let fg = handle e st k opts
      in (fg, if Spawn k \<in> set (snd fg) then Some (earlyExpirationRefresh r st k opts) else None))"

section \<open>Reading a trace\<close>

fun isLocksRelease :: "action \<Rightarrow> bool" where
  "isLocksRelease (LocksRelease k) = True"
| "isLocksRelease a = False"

fun isAcquire :: "action \<Rightarrow> bool" where
  "isAcquire (Acquire k) = True"
| "isAcquire a = False"

fun isL1Set :: "action \<Rightarrow> bool" where
  "isL1Set (L1Set k v) = True"
| "isL1Set a = False"

text \<open>A write to a tier: the direct L1 write, or the write-through of the stack writer.\<close>

fun isTierWrite :: "action \<Rightarrow> bool" where
  "isTierWrite (L1Set k v) = True"
| "isTierWrite (StackWriterSet k v) = True"
| "isTierWrite a = False"

text \<open>
  A call that can write to L2: the stack writer (L2, then L1), and the factory runner,
  which writes through it.
\<close>

fun writesL2 :: "action \<Rightarrow> bool" where
  "writesL2 (StackWriterSet k v) = True"
| "writesL2 (RunFactory k b) = True"
| "writesL2 a = False"

fun emitted :: "action list \<Rightarrow> cache_event list" where
  "emitted [] = []"
| "emitted (Emit ev # tr) = ev # emitted tr"
| "emitted (a # tr) = emitted tr"

fun logged :: "level \<Rightarrow> action list \<Rightarrow> string list" where
  "logged l [] = []"
| "logged l (Log l' msg # tr) = (if l' = l then msg # logged l tr else logged l tr)"
| "logged l (a # tr) = logged l tr"

text \<open>Some action satisfying \<open>P\<close> occurs in the trace strictly before one satisfying \<open>Q\<close>.\<close>

fun precedes :: "(action \<Rightarrow> bool) \<Rightarrow> (action \<Rightarrow> bool) \<Rightarrow> action list \<Rightarrow> bool" where
  "precedes P Q [] = False"
| "precedes P Q (a # tr) = ((P a \<and> list_ex Q tr) \<or> precedes P Q tr)"


section \<open>Concrete inputs\<close>

definition exampleStack :: cache_stack where
  "exampleStack = \<lparr>stackName = ''primary'', hasL1 = True, hasL2 = True\<rparr>"

definition exampleOptions :: cache_item_options where
  "exampleOptions =
     \<lparr>opId = ''op-1'', ttl = 1000,
      gracePeriod = \<lparr>enabled = True, duration = 5000, fallbackDuration = Some 2000\<rparr>,
      timeouts = \<lparr>soft = Some 100, hard = Some 500\<rparr>\<rparr>"

definition noGraceOptions :: cache_item_options where
  "noGraceOptions =
     exampleOptions\<lparr>gracePeriod := \<lparr>enabled = False, duration = 0, fallbackDuration = None\<rparr>\<rparr>"

text \<open>The grace period is enabled and no fallback duration is set.\<close>

definition noFallbackOptions :: cache_item_options where
  "noFallbackOptions =
     exampleOptions\<lparr>gracePeriod := \<lparr>enabled = True, duration = 5000, fallbackDuration = None\<rparr>\<rparr>"

text \<open>An item that is valid at time 1000 and past its early expiration.\<close>

definition freshItem :: cache_item where
  "freshItem =
     \<lparr>itemKey = ''k'', itemValue = ''5'', logicalExpiresAt = 1200, physicalExpiresAt = 6200,
      earlyExpirationAt = Some 990\<rparr>"

text \<open>An item that logically expired at time 950 and is still physically present.\<close>

definition staleItem :: cache_item where
  "staleItem =
     \<lparr>itemKey = ''k'', itemValue = ''1'', logicalExpiresAt = 950, physicalExpiresAt = 5950,
      earlyExpirationAt = None\<rparr>"

definition staleRemoteItem :: cache_item where
  "staleRemoteItem =
     \<lparr>itemKey = ''k'', itemValue = ''9'', logicalExpiresAt = 900, physicalExpiresAt = 5900,
      earlyExpirationAt = None\<rparr>"

text \<open>
  A cold miss at time 1000: both tiers answer with no item, the lock is granted, the
  factory run resolves to 42, the L1 driver accepts a write.
\<close>

definition coldEnv :: env where
  "coldEnv =
     \<lparr>l1GetFirst = Inr None, clockFirst = 1000,
      lockAcquire = Inr (), elapsedAcquire = 100,
      l1GetSecond = Inr None, elapsedSecondRead = 1,
      l2GetResult = Inr None, elapsedRemoteRead = 1,
      factoryRun = Inr ''42'', elapsedFactory = 100,
      l1SetResult = Inr True\<rparr>"

text \<open>The early refresh whose factory throws, on a free lock.\<close>

definition failingRefresh :: refresh_env where
  "failingRefresh =
     \<lparr>lockIsLocked = False, exclusiveAcquire = Inr (),
      factoryResult = Inl (FactoryError ''boom''), writerSetResult = Inr ()\<rparr>"

text \<open>An L2 item that is valid at time 1000.\<close>

definition freshRemoteItem :: cache_item where
  "freshRemoteItem =
     \<lparr>itemKey = ''k'', itemValue = ''7'', logicalExpiresAt = 1500, physicalExpiresAt = 6500,
      earlyExpirationAt = None\<rparr>"

text \<open>The first L1 read finds a valid, early-expired item.\<close>

definition warmEnv :: env where
  "warmEnv = coldEnv\<lparr>l1GetFirst := Inr (Some freshItem)\<rparr>"

text \<open>The L1 read made under the lock throws.\<close>

definition rereadRaisesEnv :: env where
  "rereadRaisesEnv = coldEnv\<lparr>l1GetSecond := Inl (DriverError ''l1 unavailable'')\<rparr>"

text \<open>The L2 read made under the lock throws.\<close>

definition remoteReadRaisesEnv :: env where
  "remoteReadRaisesEnv = coldEnv\<lparr>l2GetResult := Inl (DriverError ''l2 unavailable'')\<rparr>"

text \<open>L1 is empty and L2 holds a valid item.\<close>

definition remoteHitEnv :: env where
  "remoteHitEnv = coldEnv\<lparr>l2GetResult := Inr (Some freshRemoteItem)\<rparr>"

text \<open>L1 holds a stale item and the lock is not granted in time.\<close>

definition lockTimeoutEnv :: env where
  "lockTimeoutEnv = coldEnv\<lparr>l1GetFirst := Inr (Some staleItem), lockAcquire := Inl LockTimeout\<rparr>"

text \<open>L1 holds a stale item and the pending acquisition is cancelled.\<close>

definition lockCanceledEnv :: env where
  "lockCanceledEnv =
     coldEnv\<lparr>l1GetFirst := Inr (Some staleItem),
             lockAcquire := Inl (OtherError ''request for lock canceled'')\<rparr>"

text \<open>L1 is empty, L2 holds a stale item and the factory throws.\<close>

definition factoryErrorEnv :: env where
  "factoryErrorEnv =
     coldEnv\<lparr>l2GetResult := Inr (Some staleRemoteItem),
             factoryRun := Inl (FactoryError ''boom'')\<rparr>"

text \<open>The same, and the L1 driver throws on the write.\<close>

definition factoryErrorWriteRaisesEnv :: env where
  "factoryErrorWriteRaisesEnv =
     factoryErrorEnv\<lparr>l1SetResult := Inl (DriverError ''l1 unavailable'')\<rparr>"

text \<open>
  L1 is empty at the first read and holds a stale item at the read made under the lock;
  the factory run fails with the soft timeout.
\<close>

definition softTimeoutEnv :: env where
  "softTimeoutEnv =
     coldEnv\<lparr>l1GetSecond := Inr (Some staleItem), factoryRun := Inl FactorySoftTimeout\<rparr>"

text \<open>L1 holds the stale item at both reads; the factory run fails with the soft timeout.\<close>

definition softTimeoutStaleEnv :: env where
  "softTimeoutStaleEnv = softTimeoutEnv\<lparr>l1GetFirst := Inr (Some staleItem)\<rparr>"

text \<open>L1 is empty at both reads, L2 holds a stale item; the factory run fails with the soft timeout.\<close>

definition softTimeoutRemoteEnv :: env where
  "softTimeoutRemoteEnv =
     coldEnv\<lparr>l2GetResult := Inr (Some staleRemoteItem), factoryRun := Inl FactorySoftTimeout\<rparr>"

text \<open>Both tiers are empty; the factory run fails with the soft timeout.\<close>

definition softTimeoutColdEnv :: env where
  "softTimeoutColdEnv = coldEnv\<lparr>factoryRun := Inl FactorySoftTimeout\<rparr>"

section \<open>Unfolding sets and the paths through the handler\<close>

lemmas handler_defs =
  handle_def handleLocked_def handleFactoryFailure_def acquireLock_def
  returnGracedValueOrThrow_def returnLocalCacheValue_def returnRemoteCacheValue_def
  applyFallbackAndReturnGracedValue_def isItemValid_def l1Get_def l2Get_def l1Set_def
  after_def

lemmas item_defs =
  getValue_def isLogicallyExpired_def isEarlyExpired_def applyFallbackDuration_def
  serialize_def isGracePeriodEnabled_def getApplicableLockTimeout_def orElse_def

lemmas clock_defs = nowFirst_def nowLockFailed_def nowSecond_def nowRemote_def nowFailed_def

lemma emitted_append: "emitted (xs @ ys) = emitted xs @ emitted ys"
  by (induction xs rule: emitted.induct) simp_all

lemma fst_after: "fst (after tr m) = fst m"
  by (simp add: after_def)

lemma snd_after: "snd (after tr m) = tr @ snd m"
  by (simp add: after_def)

lemma after_after: "after tr (after tr' m) = after (tr @ tr') m"
  by (simp add: after_def)

lemma isItemValid_Some: "isItemValid now (Some item) = (\<not> isLogicallyExpired now item)"
  by (simp add: isItemValid_def)

lemma isItemValid_None: "isItemValid now None = False"
  by (simp add: isItemValid_def)

lemma handle_first_hit:
  assumes "hasL1 st" and "l1GetFirst e = Inr (Some item)"
    and "\<not> isLogicallyExpired (nowFirst e) item"
  shows "handle e st k opts =
     (Inr (getValue item),
      L1Get k # (if isEarlyExpired (nowFirst e) item then [Spawn k] else [])
      @ [Emit (CacheHit k (getValue item) (stackName st) (Some False)),
         Log LTrace ''local cache hit''])"
  using assms
  by (simp add: handle_def l1Get_def isItemValid_def returnLocalCacheValue_def after_def)

lemma handle_lock_failed:
  assumes "fst (l1Get st k (l1GetFirst e)) = Inr firstItem"
    and "\<not> isItemValid (nowFirst e) firstItem"
    and "lockAcquire e = Inl err"
  shows "handle e st k opts =
     after (snd (l1Get st k (l1GetFirst e))
            @ [GetOrCreateForKey k (getApplicableLockTimeout opts (firstItem \<noteq> None)), Acquire k])
       (returnGracedValueOrThrow st (nowLockFailed e) k firstItem opts err)"
  using assms
  by (auto simp: handle_def acquireLock_def split: prod.splits sum.splits)

lemma handle_lock_held:
  assumes "fst (l1Get st k (l1GetFirst e)) = Inr firstItem"
    and "\<not> isItemValid (nowFirst e) firstItem"
    and "lockAcquire e = Inr ()"
  shows "handle e st k opts =
     after (snd (l1Get st k (l1GetFirst e))
            @ [GetOrCreateForKey k (getApplicableLockTimeout opts (firstItem \<noteq> None)), Acquire k])
       (handleLocked e st k opts)"
  using assms
  by (auto simp: handle_def acquireLock_def split: prod.splits sum.splits)

lemma handleLocked_remote_hit:
  assumes "fst (l1Get st k (l1GetSecond e)) = Inr localItem"
    and "\<not> isItemValid (nowSecond e) localItem"
    and "hasL2 st" and "l2GetResult e = Inr (Some r)"
    and "\<not> isLogicallyExpired (nowRemote e) r"
  shows "handleLocked e st k opts =
     after (Log LTrace ''acquired lock'' # snd (l1Get st k (l1GetSecond e))
            @ [L2Get k, LocksRelease k])
       (returnRemoteCacheValue e st k r)"
  using assms
  by (auto simp: handleLocked_def l2Get_def isItemValid_def after_def split: prod.splits sum.splits)

lemma handleLocked_factory_failed:
  assumes "fst (l1Get st k (l1GetSecond e)) = Inr localItem"
    and "\<not> isItemValid (nowSecond e) localItem"
    and "fst (l2Get st k (l2GetResult e)) = Inr remoteItem"
    and "\<not> isItemValid (nowRemote e) remoteItem"
    and "factoryRun e = Inl err"
  shows "handleLocked e st k opts =
     after (Log LTrace ''acquired lock'' # snd (l1Get st k (l1GetSecond e))
            @ snd (l2Get st k (l2GetResult e)) @ [RunFactory k (localItem \<noteq> None)])
       (handleFactoryFailure e st k opts localItem remoteItem err)"
  using assms
  by (auto simp: handleLocked_def after_def split: prod.splits sum.splits)

lemma applyFallbackDuration_extends:
  "logicalExpiresAt (applyFallbackDuration now item d) = now + d
   \<and> logicalExpiresAt (applyFallbackDuration now item d)
       \<le> physicalExpiresAt (applyFallbackDuration now item d)
   \<and> getValue (applyFallbackDuration now item d) = getValue item"
  by (simp add: applyFallbackDuration_def getValue_def)

text \<open>
The path to an L2 hit, and the path into the \<^verbatim>\<open>catch\<close> block of the factory run.
\<close>

lemma handle_remote_hit:
  assumes "fst (l1Get st k (l1GetFirst e)) = Inr firstItem"
    and "\<not> isItemValid (nowFirst e) firstItem"
    and "lockAcquire e = Inr ()"
    and "fst (l1Get st k (l1GetSecond e)) = Inr localItem"
    and "\<not> isItemValid (nowSecond e) localItem"
    and "hasL2 st" and "l2GetResult e = Inr (Some r)"
    and "\<not> isLogicallyExpired (nowRemote e) r"
  shows "handle e st k opts =
     after (snd (l1Get st k (l1GetFirst e))
            @ [GetOrCreateForKey k (getApplicableLockTimeout opts (firstItem \<noteq> None)), Acquire k,
               Log LTrace ''acquired lock'']
            @ snd (l1Get st k (l1GetSecond e)) @ [L2Get k, LocksRelease k])
       (returnRemoteCacheValue e st k r)"
  by (simp add: handle_lock_held [OF assms(1-3)] handleLocked_remote_hit [OF assms(4-8)]
      after_after)

lemma handle_factory_failed:
  assumes "fst (l1Get st k (l1GetFirst e)) = Inr firstItem"
    and "\<not> isItemValid (nowFirst e) firstItem"
    and "lockAcquire e = Inr ()"
    and "fst (l1Get st k (l1GetSecond e)) = Inr localItem"
    and "\<not> isItemValid (nowSecond e) localItem"
    and "fst (l2Get st k (l2GetResult e)) = Inr remoteItem"
    and "\<not> isItemValid (nowRemote e) remoteItem"
    and "factoryRun e = Inl err"
  shows "handle e st k opts =
     after (snd (l1Get st k (l1GetFirst e))
            @ [GetOrCreateForKey k (getApplicableLockTimeout opts (firstItem \<noteq> None)), Acquire k,
               Log LTrace ''acquired lock'']
            @ snd (l1Get st k (l1GetSecond e)) @ snd (l2Get st k (l2GetResult e))
            @ [RunFactory k (localItem \<noteq> None)])
       (handleFactoryFailure e st k opts localItem remoteItem err)"
  by (simp add: handle_lock_held [OF assms(1-3)] handleLocked_factory_failed [OF assms(4-8)]
      after_after)

text \<open>
The concrete inputs take the paths their names say.
\<close>

lemma remoteHit_path:
  "fst (l1Get exampleStack ''k'' (l1GetFirst remoteHitEnv)) = Inr None"
  "\<not> isItemValid (nowFirst remoteHitEnv) None"
  "lockAcquire remoteHitEnv = Inr ()"
  "fst (l1Get exampleStack ''k'' (l1GetSecond remoteHitEnv)) = Inr None"
  "\<not> isItemValid (nowSecond remoteHitEnv) None"
  "hasL2 exampleStack"
  "l2GetResult remoteHitEnv = Inr (Some freshRemoteItem)"
  "\<not> isLogicallyExpired (nowRemote remoteHitEnv) freshRemoteItem"
  by (simp_all add: l1Get_def isItemValid_def item_defs clock_defs
      remoteHitEnv_def coldEnv_def exampleStack_def freshRemoteItem_def)

lemma factoryError_path:
  "fst (l1Get exampleStack ''k'' (l1GetFirst factoryErrorEnv)) = Inr None"
  "\<not> isItemValid (nowFirst factoryErrorEnv) None"
  "lockAcquire factoryErrorEnv = Inr ()"
  "fst (l1Get exampleStack ''k'' (l1GetSecond factoryErrorEnv)) = Inr None"
  "\<not> isItemValid (nowSecond factoryErrorEnv) None"
  "fst (l2Get exampleStack ''k'' (l2GetResult factoryErrorEnv)) = Inr (Some staleRemoteItem)"
  "\<not> isItemValid (nowRemote factoryErrorEnv) (Some staleRemoteItem)"
  "factoryRun factoryErrorEnv = Inl (FactoryError ''boom'')"
  "FactoryError ''boom'' \<noteq> FactorySoftTimeout"
  by (simp_all add: l1Get_def l2Get_def isItemValid_def item_defs clock_defs
      factoryErrorEnv_def coldEnv_def exampleStack_def staleRemoteItem_def)

lemma factoryErrorWriteRaises_path:
  "fst (l1Get exampleStack ''k'' (l1GetFirst factoryErrorWriteRaisesEnv)) = Inr None"
  "\<not> isItemValid (nowFirst factoryErrorWriteRaisesEnv) None"
  "lockAcquire factoryErrorWriteRaisesEnv = Inr ()"
  "fst (l1Get exampleStack ''k'' (l1GetSecond factoryErrorWriteRaisesEnv)) = Inr None"
  "\<not> isItemValid (nowSecond factoryErrorWriteRaisesEnv) None"
  "fst (l2Get exampleStack ''k'' (l2GetResult factoryErrorWriteRaisesEnv))
     = Inr (Some staleRemoteItem)"
  "\<not> isItemValid (nowRemote factoryErrorWriteRaisesEnv) (Some staleRemoteItem)"
  "factoryRun factoryErrorWriteRaisesEnv = Inl (FactoryError ''boom'')"
  "FactoryError ''boom'' \<noteq> FactorySoftTimeout"
  by (simp_all add: l1Get_def l2Get_def isItemValid_def item_defs clock_defs
      factoryErrorWriteRaisesEnv_def factoryErrorEnv_def coldEnv_def exampleStack_def
      staleRemoteItem_def)

lemma softTimeout_path:
  "fst (l1Get exampleStack ''k'' (l1GetFirst softTimeoutEnv)) = Inr None"
  "\<not> isItemValid (nowFirst softTimeoutEnv) None"
  "lockAcquire softTimeoutEnv = Inr ()"
  "fst (l1Get exampleStack ''k'' (l1GetSecond softTimeoutEnv)) = Inr (Some staleItem)"
  "\<not> isItemValid (nowSecond softTimeoutEnv) (Some staleItem)"
  "fst (l2Get exampleStack ''k'' (l2GetResult softTimeoutEnv)) = Inr None"
  "\<not> isItemValid (nowRemote softTimeoutEnv) None"
  "factoryRun softTimeoutEnv = Inl FactorySoftTimeout"
  by (simp_all add: l1Get_def l2Get_def isItemValid_def item_defs clock_defs
      softTimeoutEnv_def coldEnv_def exampleStack_def staleItem_def)

lemma softTimeoutRemote_path:
  "fst (l1Get exampleStack ''k'' (l1GetFirst softTimeoutRemoteEnv)) = Inr None"
  "\<not> isItemValid (nowFirst softTimeoutRemoteEnv) None"
  "lockAcquire softTimeoutRemoteEnv = Inr ()"
  "fst (l1Get exampleStack ''k'' (l1GetSecond softTimeoutRemoteEnv)) = Inr None"
  "\<not> isItemValid (nowSecond softTimeoutRemoteEnv) None"
  "fst (l2Get exampleStack ''k'' (l2GetResult softTimeoutRemoteEnv)) = Inr (Some staleRemoteItem)"
  "\<not> isItemValid (nowRemote softTimeoutRemoteEnv) (Some staleRemoteItem)"
  "factoryRun softTimeoutRemoteEnv = Inl FactorySoftTimeout"
  by (simp_all add: l1Get_def l2Get_def isItemValid_def item_defs clock_defs
      softTimeoutRemoteEnv_def coldEnv_def exampleStack_def staleRemoteItem_def)

lemma softTimeoutCold_path:
  "fst (l1Get exampleStack ''k'' (l1GetFirst softTimeoutColdEnv)) = Inr None"
  "\<not> isItemValid (nowFirst softTimeoutColdEnv) None"
  "lockAcquire softTimeoutColdEnv = Inr ()"
  "fst (l1Get exampleStack ''k'' (l1GetSecond softTimeoutColdEnv)) = Inr None"
  "\<not> isItemValid (nowSecond softTimeoutColdEnv) None"
  "fst (l2Get exampleStack ''k'' (l2GetResult softTimeoutColdEnv)) = Inr None"
  "\<not> isItemValid (nowRemote softTimeoutColdEnv) None"
  "factoryRun softTimeoutColdEnv = Inl FactorySoftTimeout"
  by (simp_all add: l1Get_def l2Get_def isItemValid_def item_defs clock_defs
      softTimeoutColdEnv_def coldEnv_def exampleStack_def)

section \<open>The optimistic L1 hit\<close>

text \<open>
  Claim C7. Whenever the first L1 read returns an item that is present and not logically
  expired, \<open>handle\<close> returns that item's value, performs no lock acquisition, and emits
  exactly one \<open>CacheHit\<close>, whose flag is false. The early refresh is spawned exactly when
  the item is early-expired; the foreground outcome is the one of \<open>handle\<close> alone,
  whatever the spawned task does, since the task is not awaited.
\<close>

theorem first_hit_returns_without_lock:
  assumes "hasL1 st" and "l1GetFirst e = Inr (Some item)"
    and "\<not> isLogicallyExpired (nowFirst e) item"
  shows "fst (handle e st k opts) = Inr (getValue item)
    \<and> \<not> list_ex isAcquire (snd (handle e st k opts))
    \<and> emitted (snd (handle e st k opts)) = [CacheHit k (getValue item) (stackName st) (Some False)]
    \<and> fst (handleWithBackground e r st k opts) = handle e st k opts
    \<and> snd (handleWithBackground e r st k opts) =
        (if isEarlyExpired (nowFirst e) item then Some (earlyExpirationRefresh r st k opts)
         else None)"
  by (simp add: handle_first_hit [OF assms] handleWithBackground_def)

text \<open>
  The theorem at a valid, early-expired item: value 5 is returned and a refresh is spawned.
\<close>

theorem first_hit_returns_without_lock_witness:
  "hasL1 exampleStack \<and> l1GetFirst warmEnv = Inr (Some freshItem)
   \<and> \<not> isLogicallyExpired (nowFirst warmEnv) freshItem
   \<and> isEarlyExpired (nowFirst warmEnv) freshItem
   \<and> fst (handle warmEnv exampleStack ''k'' exampleOptions) = Inr ''5''
   \<and> \<not> list_ex isAcquire (snd (handle warmEnv exampleStack ''k'' exampleOptions))
   \<and> emitted (snd (handle warmEnv exampleStack ''k'' exampleOptions))
       = [CacheHit ''k'' ''5'' ''primary'' (Some False)]
   \<and> snd (handleWithBackground warmEnv failingRefresh exampleStack ''k'' exampleOptions)
       = Some (earlyExpirationRefresh failingRefresh exampleStack ''k'' exampleOptions)"
proof -
  have h1: "hasL1 exampleStack"
    by (simp add: exampleStack_def)
  have h2: "l1GetFirst warmEnv = Inr (Some freshItem)"
    by (simp add: warmEnv_def)
  have h3: "\<not> isLogicallyExpired (nowFirst warmEnv) freshItem"
    by (simp add: item_defs clock_defs warmEnv_def coldEnv_def freshItem_def)
  have h4: "isEarlyExpired (nowFirst warmEnv) freshItem"
    by (simp add: item_defs clock_defs warmEnv_def coldEnv_def freshItem_def)
  have v: "getValue freshItem = ''5''" "stackName exampleStack = ''primary''"
    by (simp_all add: getValue_def freshItem_def exampleStack_def)
  show ?thesis
    using h1 h2 h3 h4 v
      first_hit_returns_without_lock [OF h1 h2 h3, of "''k''" exampleOptions failingRefresh]
    by simp
qed

section \<open>Failure to acquire the lock\<close>

text \<open>
  Claim C5. When the acquisition fails with \<open>LockTimeout\<close>: if the grace period is
  enabled and the first L1 read returned an item (it is logically expired, or the handler
  would have returned it), \<open>handle\<close> returns that item's value and emits one \<open>CacheHit\<close>
  whose graced flag is true; otherwise the timeout error is propagated unchanged and
  nothing is emitted.
\<close>

theorem lock_timeout_grace:
  assumes "fst (l1Get st k (l1GetFirst e)) = Inr localItem"
    and "\<not> isItemValid (nowFirst e) localItem"
    and "lockAcquire e = Inl LockTimeout"
  shows "(isGracePeriodEnabled opts \<and> localItem = Some item \<longrightarrow>
            fst (handle e st k opts) = Inr (getValue item)
          \<and> emitted (snd (handle e st k opts))
              = [CacheHit k (getValue item) (stackName st) (Some True)])
       \<and> (\<not> (isGracePeriodEnabled opts \<and> localItem \<noteq> None) \<longrightarrow>
            fst (handle e st k opts) = Inl LockTimeout
          \<and> emitted (snd (handle e st k opts)) = [])"
proof -
  have expired: "isLogicallyExpired (nowLockFailed e) item" if "localItem = Some item"
    using that assms(2) by (simp add: isItemValid_def isLogicallyExpired_def nowLockFailed_def)
  have quiet: "emitted (snd (l1Get st k (l1GetFirst e))) = []"
    by (simp add: l1Get_def)
  show ?thesis
    using expired quiet
    by (auto simp: handle_lock_failed [OF assms] fst_after snd_after emitted_append
        returnGracedValueOrThrow_def returnLocalCacheValue_def)
qed

text \<open>
  The theorem at a stale L1 item, with the grace period enabled and with it disabled.
\<close>

theorem lock_timeout_grace_witness:
  "fst (l1Get exampleStack ''k'' (l1GetFirst lockTimeoutEnv)) = Inr (Some staleItem)
   \<and> \<not> isItemValid (nowFirst lockTimeoutEnv) (Some staleItem)
   \<and> lockAcquire lockTimeoutEnv = Inl LockTimeout
   \<and> isGracePeriodEnabled exampleOptions
   \<and> fst (handle lockTimeoutEnv exampleStack ''k'' exampleOptions) = Inr ''1''
   \<and> emitted (snd (handle lockTimeoutEnv exampleStack ''k'' exampleOptions))
       = [CacheHit ''k'' ''1'' ''primary'' (Some True)]
   \<and> \<not> isGracePeriodEnabled noGraceOptions
   \<and> fst (handle lockTimeoutEnv exampleStack ''k'' noGraceOptions) = Inl LockTimeout
   \<and> emitted (snd (handle lockTimeoutEnv exampleStack ''k'' noGraceOptions)) = []"
proof -
  have h1: "fst (l1Get exampleStack ''k'' (l1GetFirst lockTimeoutEnv)) = Inr (Some staleItem)"
    by (simp add: l1Get_def lockTimeoutEnv_def coldEnv_def exampleStack_def staleItem_def
        exampleOptions_def noGraceOptions_def)
  have h2: "\<not> isItemValid (nowFirst lockTimeoutEnv) (Some staleItem)"
    by (simp add: isItemValid_def item_defs clock_defs lockTimeoutEnv_def coldEnv_def exampleStack_def staleItem_def
        exampleOptions_def noGraceOptions_def)
  have h3: "lockAcquire lockTimeoutEnv = Inl LockTimeout"
    by (simp add: lockTimeoutEnv_def coldEnv_def exampleStack_def staleItem_def
        exampleOptions_def noGraceOptions_def)
  have g: "isGracePeriodEnabled exampleOptions" "\<not> isGracePeriodEnabled noGraceOptions"
    by (simp_all add: item_defs lockTimeoutEnv_def coldEnv_def exampleStack_def staleItem_def
        exampleOptions_def noGraceOptions_def)
  have v: "getValue staleItem = ''1''" "stackName exampleStack = ''primary''"
    by (simp_all add: getValue_def staleItem_def exampleStack_def)
  show ?thesis
    using h1 h2 h3 g v
      lock_timeout_grace [OF h1 h2 h3, of exampleOptions staleItem]
      lock_timeout_grace [OF h1 h2 h3, of noGraceOptions staleItem]
    by simp
qed

text \<open>
  Claim C9. The fallback does not look at the kind of the error. Whatever error the
  acquisition throws: if the grace period is enabled and the first L1 read returned a
  (logically expired) item, \<open>handle\<close>, having asked for the lock with the timeout of a
  call that has a fallback, emits \<open>CacheHit\<close> with the graced flag true and returns that
  item's value instead of the error, and does nothing else; if the grace period is
  disabled or there is no such item, \<open>handle\<close> rejects with that same error right after
  the failed acquisition.
\<close>

theorem acquire_error_grace:
  assumes "fst (l1Get st k (l1GetFirst e)) = Inr localItem"
    and "\<not> isItemValid (nowFirst e) localItem"
    and "lockAcquire e = Inl err"
  shows "(isGracePeriodEnabled opts \<and> localItem = Some item \<longrightarrow>
            handle e st k opts =
              (Inr (getValue item),
               [L1Get k, GetOrCreateForKey k (getApplicableLockTimeout opts True), Acquire k,
                Emit (CacheHit k (getValue item) (stackName st) (Some True)),
                Log LTrace ''local cache hit (graced)'']))
       \<and> (\<not> (isGracePeriodEnabled opts \<and> localItem \<noteq> None) \<longrightarrow>
            handle e st k opts =
              (Inl err,
               snd (l1Get st k (l1GetFirst e))
               @ [GetOrCreateForKey k (getApplicableLockTimeout opts (localItem \<noteq> None)),
                  Acquire k]))"
proof -
  have expired: "isLogicallyExpired (nowLockFailed e) item" if "localItem = Some item"
    using that assms(2) by (simp add: isItemValid_def isLogicallyExpired_def nowLockFailed_def)
  have called: "snd (l1Get st k (l1GetFirst e)) = [L1Get k]" if "localItem = Some item"
    using that assms(1) by (simp add: l1Get_def split: if_splits)
  show ?thesis
    using expired called
    by (auto simp: handle_lock_failed [OF assms] after_def
        returnGracedValueOrThrow_def returnLocalCacheValue_def)
qed

text \<open>
  The theorem at an acquisition that fails with an error other than the timeout, with the
  grace period enabled and with it disabled.
\<close>

theorem acquire_error_grace_witness:
  "fst (l1Get exampleStack ''k'' (l1GetFirst lockCanceledEnv)) = Inr (Some staleItem)
   \<and> \<not> isItemValid (nowFirst lockCanceledEnv) (Some staleItem)
   \<and> lockAcquire lockCanceledEnv = Inl (OtherError ''request for lock canceled'')
   \<and> isGracePeriodEnabled exampleOptions
   \<and> handle lockCanceledEnv exampleStack ''k'' exampleOptions =
       (Inr ''1'',
        [L1Get ''k'', GetOrCreateForKey ''k'' (Some 100), Acquire ''k'',
         Emit (CacheHit ''k'' ''1'' ''primary'' (Some True)),
         Log LTrace ''local cache hit (graced)''])
   \<and> \<not> isGracePeriodEnabled noGraceOptions
   \<and> handle lockCanceledEnv exampleStack ''k'' noGraceOptions =
       (Inl (OtherError ''request for lock canceled''),
        [L1Get ''k'', GetOrCreateForKey ''k'' (Some 500), Acquire ''k''])"
proof -
  have h1: "fst (l1Get exampleStack ''k'' (l1GetFirst lockCanceledEnv)) = Inr (Some staleItem)"
    by (simp add: l1Get_def lockCanceledEnv_def coldEnv_def exampleStack_def)
  have h2: "\<not> isItemValid (nowFirst lockCanceledEnv) (Some staleItem)"
    by (simp add: isItemValid_def item_defs clock_defs lockCanceledEnv_def coldEnv_def
        staleItem_def)
  have h3: "lockAcquire lockCanceledEnv = Inl (OtherError ''request for lock canceled'')"
    by (simp add: lockCanceledEnv_def)
  have g: "isGracePeriodEnabled exampleOptions" "\<not> isGracePeriodEnabled noGraceOptions"
    "getApplicableLockTimeout exampleOptions True = Some 100"
    "getApplicableLockTimeout noGraceOptions True = Some 500"
    "snd (l1Get exampleStack ''k'' (l1GetFirst lockCanceledEnv)) = [L1Get ''k'']"
    "getValue staleItem = ''1''" "stackName exampleStack = ''primary''"
    by (simp_all add: item_defs l1Get_def exampleOptions_def noGraceOptions_def
        exampleStack_def staleItem_def)
  show ?thesis
    using h1 h2 h3 g
      acquire_error_grace [OF h1 h2 h3, where opts = exampleOptions and item = staleItem]
      acquire_error_grace [OF h1 h2 h3, where opts = noGraceOptions and item = staleItem]
    by simp
qed

section \<open>The L2 hit\<close>

text \<open>
  Claim C2, as the code has it. When \<open>handle\<close>, holding the lock, finds a valid item in
  L2, it releases the lock first and only afterwards writes the item to L1 (if an L1 is
  configured): no L1 write precedes the release. The value is returned after the write.
\<close>

theorem remote_hit_release_then_write:
  assumes "fst (l1Get st k (l1GetFirst e)) = Inr firstItem"
    and "\<not> isItemValid (nowFirst e) firstItem"
    and "lockAcquire e = Inr ()"
    and "fst (l1Get st k (l1GetSecond e)) = Inr localItem"
    and "\<not> isItemValid (nowSecond e) localItem"
    and "hasL2 st" and "l2GetResult e = Inr (Some r)"
    and "\<not> isLogicallyExpired (nowRemote e) r"
  shows "filter (\<lambda>a. isLocksRelease a \<or> isL1Set a) (snd (handle e st k opts))
           = LocksRelease k # (if hasL1 st then [L1Set k (serialize r)] else [])
       \<and> \<not> precedes isL1Set isLocksRelease (snd (handle e st k opts))
       \<and> (hasL1 st \<longrightarrow> precedes isLocksRelease isL1Set (snd (handle e st k opts)))
       \<and> (l1SetResult e = Inr b \<longrightarrow> fst (handle e st k opts) = Inr (getValue r))"
  by (simp add: handle_remote_hit [OF assms] returnRemoteCacheValue_def l1Get_def l1Set_def
      after_def split: sum.splits)

text \<open>
  The claim as it was stated, that the L1 write completes before the lock is released,
  fails on an L2 hit: the release is the seventh action, the write the ninth.
\<close>

theorem remote_hit_write_not_before_release:
  "handle remoteHitEnv exampleStack ''k'' exampleOptions =
     (Inr ''7'',
      [L1Get ''k'', GetOrCreateForKey ''k'' (Some 500), Acquire ''k'',
       Log LTrace ''acquired lock'', L1Get ''k'', L2Get ''k'', LocksRelease ''k'',
       Log LTrace ''remote cache hit'', L1Set ''k'' (serialize freshRemoteItem),
       Emit (CacheHit ''k'' ''7'' ''primary'' None)])
   \<and> \<not> precedes isL1Set isLocksRelease (snd (handle remoteHitEnv exampleStack ''k'' exampleOptions))
   \<and> precedes isLocksRelease isL1Set (snd (handle remoteHitEnv exampleStack ''k'' exampleOptions))"
  by (simp add: handler_defs item_defs clock_defs remoteHitEnv_def coldEnv_def
      exampleStack_def exampleOptions_def freshRemoteItem_def)

text \<open>
  The theorem at the same L2 hit.
\<close>

theorem remote_hit_release_then_write_witness:
  "fst (l1Get exampleStack ''k'' (l1GetFirst remoteHitEnv)) = Inr None
   \<and> \<not> isItemValid (nowFirst remoteHitEnv) None
   \<and> lockAcquire remoteHitEnv = Inr ()
   \<and> fst (l1Get exampleStack ''k'' (l1GetSecond remoteHitEnv)) = Inr None
   \<and> \<not> isItemValid (nowSecond remoteHitEnv) None
   \<and> hasL2 exampleStack
   \<and> l2GetResult remoteHitEnv = Inr (Some freshRemoteItem)
   \<and> \<not> isLogicallyExpired (nowRemote remoteHitEnv) freshRemoteItem
   \<and> hasL1 exampleStack \<and> l1SetResult remoteHitEnv = Inr True
   \<and> filter (\<lambda>a. isLocksRelease a \<or> isL1Set a)
        (snd (handle remoteHitEnv exampleStack ''k'' exampleOptions))
       = [LocksRelease ''k'', L1Set ''k'' (serialize freshRemoteItem)]
   \<and> \<not> precedes isL1Set isLocksRelease (snd (handle remoteHitEnv exampleStack ''k'' exampleOptions))
   \<and> precedes isLocksRelease isL1Set (snd (handle remoteHitEnv exampleStack ''k'' exampleOptions))
   \<and> fst (handle remoteHitEnv exampleStack ''k'' exampleOptions) = Inr ''7''"
proof -
  have l1: "hasL1 exampleStack" "l1SetResult remoteHitEnv = Inr True"
    "getValue freshRemoteItem = ''7''"
    by (simp_all add: getValue_def remoteHitEnv_def coldEnv_def exampleStack_def
        freshRemoteItem_def)
  show ?thesis
    using remoteHit_path l1
      remote_hit_release_then_write [OF remoteHit_path, where opts = exampleOptions and b = True]
    by simp
qed

text \<open>
  Claim C10. On an L2 hit the only write to a tier is the copy of the item into L1:
  \<open>handle\<close> calls neither the stack writer nor the factory runner, the two collaborators
  that write to L2, so L2 is only read.
\<close>

theorem remote_hit_writes_l1_only:
  assumes "fst (l1Get st k (l1GetFirst e)) = Inr firstItem"
    and "\<not> isItemValid (nowFirst e) firstItem"
    and "lockAcquire e = Inr ()"
    and "fst (l1Get st k (l1GetSecond e)) = Inr localItem"
    and "\<not> isItemValid (nowSecond e) localItem"
    and "hasL2 st" and "l2GetResult e = Inr (Some r)"
    and "\<not> isLogicallyExpired (nowRemote e) r"
  shows "filter isTierWrite (snd (handle e st k opts))
           = (if hasL1 st then [L1Set k (serialize r)] else [])
       \<and> \<not> list_ex writesL2 (snd (handle e st k opts))"
  by (simp add: handle_remote_hit [OF assms] returnRemoteCacheValue_def l1Get_def l1Set_def
      after_def split: sum.splits)

text \<open>
  The theorem at the L2 hit.
\<close>

theorem remote_hit_writes_l1_only_witness:
  "fst (l1Get exampleStack ''k'' (l1GetFirst remoteHitEnv)) = Inr None
   \<and> \<not> isItemValid (nowFirst remoteHitEnv) None
   \<and> lockAcquire remoteHitEnv = Inr ()
   \<and> fst (l1Get exampleStack ''k'' (l1GetSecond remoteHitEnv)) = Inr None
   \<and> \<not> isItemValid (nowSecond remoteHitEnv) None
   \<and> hasL2 exampleStack
   \<and> l2GetResult remoteHitEnv = Inr (Some freshRemoteItem)
   \<and> \<not> isLogicallyExpired (nowRemote remoteHitEnv) freshRemoteItem
   \<and> filter isTierWrite (snd (handle remoteHitEnv exampleStack ''k'' exampleOptions))
       = [L1Set ''k'' (serialize freshRemoteItem)]
   \<and> \<not> list_ex writesL2 (snd (handle remoteHitEnv exampleStack ''k'' exampleOptions))"
proof -
  have l1: "hasL1 exampleStack"
    by (simp add: exampleStack_def)
  show ?thesis
    using remoteHit_path l1
      remote_hit_writes_l1_only [OF remoteHit_path, where opts = exampleOptions]
    by simp
qed

section \<open>Failure of the factory run\<close>

text \<open>
  Claim C4, as the code has it. When the factory run fails with an error other than
  \<open>FactorySoftTimeout\<close>, let the stale item be the L2 item if one was read, otherwise the
  L1 item of the read made under the lock. If a stale item exists and the grace period is
  enabled, \<open>handle\<close> releases the lock once, then rewrites the stale item into L1 with
  the fallback duration applied, when that duration is set and not zero (and an L1 is
  configured). If this write does not throw, or no write is made, \<open>handle\<close> emits
  \<open>CacheHit\<close> with the graced flag true and returns the stale value; if the write throws,
  \<open>handle\<close> rejects with the error of the write and emits nothing. Otherwise (no stale
  item, or the grace period disabled) \<open>handle\<close> releases the lock once, writes nothing,
  emits nothing and rethrows the factory's error.
\<close>

theorem factory_failure_grace_fallback:
  assumes "fst (l1Get st k (l1GetFirst e)) = Inr firstItem"
    and "\<not> isItemValid (nowFirst e) firstItem"
    and "lockAcquire e = Inr ()"
    and "fst (l1Get st k (l1GetSecond e)) = Inr localItem"
    and "\<not> isItemValid (nowSecond e) localItem"
    and "fst (l2Get st k (l2GetResult e)) = Inr remoteItem"
    and "\<not> isItemValid (nowRemote e) remoteItem"
    and "factoryRun e = Inl err"
    and "err \<noteq> FactorySoftTimeout"
  shows "(isGracePeriodEnabled opts \<and> orElse remoteItem localItem = Some s \<longrightarrow>
            filter isLocksRelease (snd (handle e st k opts)) = [LocksRelease k]
          \<and> filter isL1Set (snd (handle e st k opts))
              = (case fallbackDuration (gracePeriod opts) of
                   None \<Rightarrow> []
                 | Some d \<Rightarrow>
                     if d \<noteq> 0 \<and> hasL1 st
                     then [L1Set k (serialize (applyFallbackDuration (nowFailed e) s d))]
                     else [])
          \<and> \<not> precedes isL1Set isLocksRelease (snd (handle e st k opts))
          \<and> (l1SetResult e = Inr b \<longrightarrow>
                fst (handle e st k opts) = Inr (getValue s)
              \<and> emitted (snd (handle e st k opts))
                  = [CacheHit k (getValue s) (stackName st) (Some True)])
          \<and> (filter isL1Set (snd (handle e st k opts)) = [] \<longrightarrow>
                fst (handle e st k opts) = Inr (getValue s)
              \<and> emitted (snd (handle e st k opts))
                  = [CacheHit k (getValue s) (stackName st) (Some True)])
          \<and> (filter isL1Set (snd (handle e st k opts)) \<noteq> [] \<and> l1SetResult e = Inl err' \<longrightarrow>
                fst (handle e st k opts) = Inl err'
              \<and> emitted (snd (handle e st k opts)) = []))
       \<and> (\<not> (isGracePeriodEnabled opts \<and> orElse remoteItem localItem \<noteq> None) \<longrightarrow>
            fst (handle e st k opts) = Inl err
          \<and> filter isLocksRelease (snd (handle e st k opts)) = [LocksRelease k]
          \<and> filter isL1Set (snd (handle e st k opts)) = []
          \<and> emitted (snd (handle e st k opts)) = [])"
  using assms(9)
  by (auto simp: handle_factory_failed [OF assms(1-8)] handleFactoryFailure_def
      applyFallbackAndReturnGracedValue_def isGracePeriodEnabled_def l1Get_def l2Get_def
      l1Set_def after_def
      split: option.splits sum.splits if_splits)

text \<open>
  The claim as it was stated returns the stale value whenever a stale item exists and the
  grace period is enabled. When the L1 driver throws on the rewrite, \<open>handle\<close> rejects
  with the driver's error instead, after the release, and emits nothing.
\<close>

theorem stale_fallback_write_raises:
  "factoryRun factoryErrorWriteRaisesEnv = Inl (FactoryError ''boom'')
   \<and> l2GetResult factoryErrorWriteRaisesEnv = Inr (Some staleRemoteItem)
   \<and> isGracePeriodEnabled exampleOptions
   \<and> handle factoryErrorWriteRaisesEnv exampleStack ''k'' exampleOptions =
       (Inl (DriverError ''l1 unavailable''),
        [L1Get ''k'', GetOrCreateForKey ''k'' (Some 500), Acquire ''k'',
         Log LTrace ''acquired lock'', L1Get ''k'', L2Get ''k'', RunFactory ''k'' False,
         Log LTrace ''factory error'', LocksRelease ''k'',
         Log LTrace ''apply fallback duration'',
         L1Set ''k'' (serialize (applyFallbackDuration 1202 staleRemoteItem 2000))])
   \<and> emitted (snd (handle factoryErrorWriteRaisesEnv exampleStack ''k'' exampleOptions)) = []"
  by (simp add: handler_defs item_defs clock_defs factoryErrorWriteRaisesEnv_def
      factoryErrorEnv_def coldEnv_def exampleStack_def exampleOptions_def staleRemoteItem_def)

text \<open>
  The theorem at a stale L2 item and a throwing factory: with the grace period enabled
  (the rewritten item expires logically at 1202 + 2000), with it disabled, with an L1
  driver that throws on the rewrite, and with that driver and no fallback duration, where
  no write is made.
\<close>

theorem factory_failure_grace_fallback_witness:
  "fst (l1Get exampleStack ''k'' (l1GetFirst factoryErrorEnv)) = Inr None
   \<and> \<not> isItemValid (nowFirst factoryErrorEnv) None
   \<and> lockAcquire factoryErrorEnv = Inr ()
   \<and> fst (l1Get exampleStack ''k'' (l1GetSecond factoryErrorEnv)) = Inr None
   \<and> \<not> isItemValid (nowSecond factoryErrorEnv) None
   \<and> fst (l2Get exampleStack ''k'' (l2GetResult factoryErrorEnv)) = Inr (Some staleRemoteItem)
   \<and> \<not> isItemValid (nowRemote factoryErrorEnv) (Some staleRemoteItem)
   \<and> factoryRun factoryErrorEnv = Inl (FactoryError ''boom'')
   \<and> FactoryError ''boom'' \<noteq> FactorySoftTimeout
   \<and> isGracePeriodEnabled exampleOptions
   \<and> orElse (Some staleRemoteItem) None = Some staleRemoteItem
   \<and> l1SetResult factoryErrorEnv = Inr True
   \<and> filter isLocksRelease (snd (handle factoryErrorEnv exampleStack ''k'' exampleOptions))
       = [LocksRelease ''k'']
   \<and> filter isL1Set (snd (handle factoryErrorEnv exampleStack ''k'' exampleOptions))
       = [L1Set ''k'' (serialize (applyFallbackDuration 1202 staleRemoteItem 2000))]
   \<and> logicalExpiresAt (applyFallbackDuration 1202 staleRemoteItem 2000) = 3202
   \<and> fst (handle factoryErrorEnv exampleStack ''k'' exampleOptions) = Inr ''9''
   \<and> emitted (snd (handle factoryErrorEnv exampleStack ''k'' exampleOptions))
       = [CacheHit ''k'' ''9'' ''primary'' (Some True)]
   \<and> \<not> isGracePeriodEnabled noGraceOptions
   \<and> fst (handle factoryErrorEnv exampleStack ''k'' noGraceOptions) = Inl (FactoryError ''boom'')
   \<and> filter isLocksRelease (snd (handle factoryErrorEnv exampleStack ''k'' noGraceOptions))
       = [LocksRelease ''k'']
   \<and> emitted (snd (handle factoryErrorEnv exampleStack ''k'' noGraceOptions)) = []
   \<and> l1SetResult factoryErrorWriteRaisesEnv = Inl (DriverError ''l1 unavailable'')
   \<and> filter isL1Set (snd (handle factoryErrorWriteRaisesEnv exampleStack ''k'' exampleOptions))
       \<noteq> []
   \<and> fst (handle factoryErrorWriteRaisesEnv exampleStack ''k'' exampleOptions)
       = Inl (DriverError ''l1 unavailable'')
   \<and> emitted (snd (handle factoryErrorWriteRaisesEnv exampleStack ''k'' exampleOptions)) = []
   \<and> isGracePeriodEnabled noFallbackOptions
   \<and> filter isL1Set (snd (handle factoryErrorWriteRaisesEnv exampleStack ''k'' noFallbackOptions))
       = []
   \<and> fst (handle factoryErrorWriteRaisesEnv exampleStack ''k'' noFallbackOptions) = Inr ''9''
   \<and> emitted (snd (handle factoryErrorWriteRaisesEnv exampleStack ''k'' noFallbackOptions))
       = [CacheHit ''k'' ''9'' ''primary'' (Some True)]"
proof -
  have g: "isGracePeriodEnabled exampleOptions" "\<not> isGracePeriodEnabled noGraceOptions"
    "isGracePeriodEnabled noFallbackOptions"
    "orElse (Some staleRemoteItem) None = Some staleRemoteItem"
    "l1SetResult factoryErrorEnv = Inr True"
    "l1SetResult factoryErrorWriteRaisesEnv = Inl (DriverError ''l1 unavailable'')"
    "hasL1 exampleStack"
    "fallbackDuration (gracePeriod exampleOptions) = Some 2000"
    "fallbackDuration (gracePeriod noFallbackOptions) = None"
    "nowFailed factoryErrorEnv = 1202" "nowFailed factoryErrorWriteRaisesEnv = 1202"
    "getValue staleRemoteItem = ''9''" "stackName exampleStack = ''primary''"
    "logicalExpiresAt (applyFallbackDuration 1202 staleRemoteItem 2000) = 3202"
    by (simp_all add: item_defs clock_defs exampleOptions_def noGraceOptions_def
        noFallbackOptions_def factoryErrorWriteRaisesEnv_def factoryErrorEnv_def coldEnv_def
        exampleStack_def staleRemoteItem_def)
  show ?thesis
    using factoryError_path g
      factory_failure_grace_fallback [OF factoryError_path,
        where opts = exampleOptions and s = staleRemoteItem and b = True
          and err' = "DriverError ''l1 unavailable''"]
      factory_failure_grace_fallback [OF factoryError_path,
        where opts = noGraceOptions and s = staleRemoteItem and b = True
          and err' = "DriverError ''l1 unavailable''"]
      factory_failure_grace_fallback [OF factoryErrorWriteRaises_path,
        where opts = exampleOptions and s = staleRemoteItem and b = True
          and err' = "DriverError ''l1 unavailable''"]
      factory_failure_grace_fallback [OF factoryErrorWriteRaises_path,
        where opts = noFallbackOptions and s = staleRemoteItem and b = True
          and err' = "DriverError ''l1 unavailable''"]
    by simp
qed

text \<open>
  Claim C6, as the code has it. When the factory run fails with \<open>FactorySoftTimeout\<close>,
  the local item that decides is the one of the L1 read made under the lock; the read
  made before the lock is not consulted. If that item exists and the grace period is
  enabled, \<open>handle\<close> returns its value and emits \<open>CacheHit\<close> with the graced flag true; if
  it exists and the grace period is disabled, the soft timeout is rethrown. If it does not
  exist, the soft timeout is handled as any other failure of the factory: with the grace
  period enabled and a stale L2 item, the stale L2 value is returned (provided the L1
  rewrite does not throw), otherwise the soft timeout is rethrown.
\<close>

theorem soft_timeout_grace:
  assumes "fst (l1Get st k (l1GetFirst e)) = Inr firstItem"
    and "\<not> isItemValid (nowFirst e) firstItem"
    and "lockAcquire e = Inr ()"
    and "fst (l1Get st k (l1GetSecond e)) = Inr localItem"
    and "\<not> isItemValid (nowSecond e) localItem"
    and "fst (l2Get st k (l2GetResult e)) = Inr remoteItem"
    and "\<not> isItemValid (nowRemote e) remoteItem"
    and "factoryRun e = Inl FactorySoftTimeout"
  shows "(localItem = Some item \<and> isGracePeriodEnabled opts \<longrightarrow>
            fst (handle e st k opts) = Inr (getValue item)
          \<and> emitted (snd (handle e st k opts))
              = [CacheHit k (getValue item) (stackName st) (Some True)])
       \<and> (localItem = Some item \<and> \<not> isGracePeriodEnabled opts \<longrightarrow>
            fst (handle e st k opts) = Inl FactorySoftTimeout
          \<and> emitted (snd (handle e st k opts)) = [])
       \<and> (localItem = None \<and> remoteItem = Some r \<and> isGracePeriodEnabled opts
            \<and> l1SetResult e = Inr b \<longrightarrow>
            fst (handle e st k opts) = Inr (getValue r)
          \<and> emitted (snd (handle e st k opts))
              = [CacheHit k (getValue r) (stackName st) (Some True)])
       \<and> (localItem = None \<and> \<not> (remoteItem \<noteq> None \<and> isGracePeriodEnabled opts) \<longrightarrow>
            fst (handle e st k opts) = Inl FactorySoftTimeout
          \<and> emitted (snd (handle e st k opts)) = [])"
proof -
  have expired: "isLogicallyExpired (nowFailed e) item" if "localItem = Some item"
    using that assms(5)
    by (simp add: isItemValid_def isLogicallyExpired_def nowFailed_def nowRemote_def)
  show ?thesis
    using expired
    by (auto simp: handle_factory_failed [OF assms] handleFactoryFailure_def
        returnGracedValueOrThrow_def returnLocalCacheValue_def
        applyFallbackAndReturnGracedValue_def isGracePeriodEnabled_def orElse_def
        l1Get_def l2Get_def l1Set_def after_def
        split: option.splits sum.splits)
qed

text \<open>
  The claim as it was stated fails in three ways. With no L1 item before the lock and a
  stale one at the read under the lock, the stale value is returned, not the error; with a
  stale L1 item and the grace period disabled, the error is rethrown, not the value
  returned; with no L1 item at all and a stale L2 item, the stale L2 value is returned,
  not the error.
\<close>

theorem soft_timeout_uses_reread_item:
  "l1GetFirst softTimeoutEnv = Inr None
   \<and> factoryRun softTimeoutEnv = Inl FactorySoftTimeout
   \<and> fst (handle softTimeoutEnv exampleStack ''k'' exampleOptions) = Inr ''1''
   \<and> l1GetFirst softTimeoutStaleEnv = Inr (Some staleItem)
   \<and> factoryRun softTimeoutStaleEnv = Inl FactorySoftTimeout
   \<and> fst (handle softTimeoutStaleEnv exampleStack ''k'' noGraceOptions) = Inl FactorySoftTimeout
   \<and> l1GetFirst softTimeoutRemoteEnv = Inr None
   \<and> l1GetSecond softTimeoutRemoteEnv = Inr None
   \<and> factoryRun softTimeoutRemoteEnv = Inl FactorySoftTimeout
   \<and> fst (handle softTimeoutRemoteEnv exampleStack ''k'' exampleOptions) = Inr ''9''"
  by (simp add: handler_defs item_defs clock_defs softTimeoutEnv_def
      softTimeoutStaleEnv_def softTimeoutRemoteEnv_def coldEnv_def exampleStack_def
      exampleOptions_def noGraceOptions_def staleItem_def staleRemoteItem_def)

text \<open>
  The theorem on each of its four branches.
\<close>

theorem soft_timeout_grace_witness:
  "fst (l1Get exampleStack ''k'' (l1GetFirst softTimeoutEnv)) = Inr None
   \<and> \<not> isItemValid (nowFirst softTimeoutEnv) None
   \<and> lockAcquire softTimeoutEnv = Inr ()
   \<and> fst (l1Get exampleStack ''k'' (l1GetSecond softTimeoutEnv)) = Inr (Some staleItem)
   \<and> \<not> isItemValid (nowSecond softTimeoutEnv) (Some staleItem)
   \<and> fst (l2Get exampleStack ''k'' (l2GetResult softTimeoutEnv)) = Inr None
   \<and> \<not> isItemValid (nowRemote softTimeoutEnv) None
   \<and> factoryRun softTimeoutEnv = Inl FactorySoftTimeout
   \<and> isGracePeriodEnabled exampleOptions
   \<and> fst (handle softTimeoutEnv exampleStack ''k'' exampleOptions) = Inr ''1''
   \<and> emitted (snd (handle softTimeoutEnv exampleStack ''k'' exampleOptions))
       = [CacheHit ''k'' ''1'' ''primary'' (Some True)]
   \<and> \<not> isGracePeriodEnabled noGraceOptions
   \<and> fst (handle softTimeoutEnv exampleStack ''k'' noGraceOptions) = Inl FactorySoftTimeout
   \<and> fst (l2Get exampleStack ''k'' (l2GetResult softTimeoutRemoteEnv)) = Inr (Some staleRemoteItem)
   \<and> l1SetResult softTimeoutRemoteEnv = Inr True
   \<and> fst (handle softTimeoutRemoteEnv exampleStack ''k'' exampleOptions) = Inr ''9''
   \<and> fst (l2Get exampleStack ''k'' (l2GetResult softTimeoutColdEnv)) = Inr None
   \<and> fst (handle softTimeoutColdEnv exampleStack ''k'' exampleOptions) = Inl FactorySoftTimeout"
proof -
  have g: "isGracePeriodEnabled exampleOptions" "\<not> isGracePeriodEnabled noGraceOptions"
    "l1SetResult softTimeoutRemoteEnv = Inr True"
    "getValue staleItem = ''1''" "getValue staleRemoteItem = ''9''"
    "stackName exampleStack = ''primary''"
    by (simp_all add: item_defs exampleOptions_def noGraceOptions_def
        softTimeoutRemoteEnv_def coldEnv_def exampleStack_def staleItem_def staleRemoteItem_def)
  show ?thesis
    using softTimeout_path softTimeoutRemote_path(6) softTimeoutCold_path(6) g
      soft_timeout_grace [OF softTimeout_path,
        where opts = exampleOptions and item = staleItem and r = staleRemoteItem and b = True]
      soft_timeout_grace [OF softTimeout_path,
        where opts = noGraceOptions and item = staleItem and r = staleRemoteItem and b = True]
      soft_timeout_grace [OF softTimeoutRemote_path,
        where opts = exampleOptions and item = staleItem and r = staleRemoteItem and b = True]
      soft_timeout_grace [OF softTimeoutCold_path,
        where opts = exampleOptions and item = staleItem and r = staleRemoteItem and b = True]
    by simp
qed

section \<open>The early refresh\<close>

text \<open>
  Claim C3, as the code has it. For an early refresh spawned from the optimistic L1 hit
  that finds the lock free: an error thrown by the factory, or by the write-through, is
  logged at level error and then thrown again, so the promise of the refresh rejects with
  that error. \<open>handle\<close> does not await that promise: the foreground caller receives the
  local value, and no error of the refresh reaches it.
\<close>

theorem early_refresh_logs_and_rethrows:
  assumes "hasL1 st" and "l1GetFirst e = Inr (Some item)"
    and "\<not> isLogicallyExpired (nowFirst e) item"
    and "isEarlyExpired (nowFirst e) item"
    and "\<not> lockIsLocked r" and "exclusiveAcquire r = Inr ()"
    and "factoryResult r = Inl err \<or> (factoryResult r = Inr v \<and> writerSetResult r = Inl err)"
  shows "map_option fst (snd (handleWithBackground e r st k opts)) = Some (Inl err)
       \<and> map_option (\<lambda>bg. logged LError (snd bg)) (snd (handleWithBackground e r st k opts))
           = Some [''factory error in early refresh'']
       \<and> fst (fst (handleWithBackground e r st k opts)) = Inr (getValue item)"
proof -
  have fg: "handle e st k opts =
     (Inr (getValue item),
      [L1Get k, Spawn k, Emit (CacheHit k (getValue item) (stackName st) (Some False)),
       Log LTrace ''local cache hit''])"
    using assms(4) by (simp add: handle_first_hit [OF assms(1-3)])
  have bg: "fst (earlyExpirationRefresh r st k opts) = Inl err
      \<and> logged LError (snd (earlyExpirationRefresh r st k opts)) = [''factory error in early refresh'']"
    using assms(5-7)
    by (auto simp: earlyExpirationRefresh_def runExclusive_def after_def)
  show ?thesis
    using bg by (simp add: handleWithBackground_def fg)
qed

text \<open>
  The claim as it was stated, that the promise of the background refresh never rejects,
  fails when the factory throws: the refresh rejects with the factory's error.
\<close>

theorem early_refresh_rejects:
  "map_option fst (snd (handleWithBackground warmEnv failingRefresh exampleStack ''k'' exampleOptions))
     = Some (Inl (FactoryError ''boom''))"
  by (simp add: handleWithBackground_def earlyExpirationRefresh_def runExclusive_def
      handler_defs item_defs clock_defs warmEnv_def coldEnv_def
      failingRefresh_def exampleStack_def exampleOptions_def freshItem_def)

text \<open>
  The theorem at a valid, early-expired item and a throwing factory.
\<close>

theorem early_refresh_logs_and_rethrows_witness:
  "hasL1 exampleStack \<and> l1GetFirst warmEnv = Inr (Some freshItem)
   \<and> \<not> isLogicallyExpired (nowFirst warmEnv) freshItem
   \<and> isEarlyExpired (nowFirst warmEnv) freshItem
   \<and> \<not> lockIsLocked failingRefresh \<and> exclusiveAcquire failingRefresh = Inr ()
   \<and> factoryResult failingRefresh = Inl (FactoryError ''boom'')
   \<and> map_option fst (snd (handleWithBackground warmEnv failingRefresh exampleStack ''k'' exampleOptions))
       = Some (Inl (FactoryError ''boom''))
   \<and> map_option (\<lambda>bg. logged LError (snd bg))
        (snd (handleWithBackground warmEnv failingRefresh exampleStack ''k'' exampleOptions))
       = Some [''factory error in early refresh'']
   \<and> fst (fst (handleWithBackground warmEnv failingRefresh exampleStack ''k'' exampleOptions))
       = Inr ''5''"
proof -
  have h1: "hasL1 exampleStack"
    by (simp add: exampleStack_def)
  have h2: "l1GetFirst warmEnv = Inr (Some freshItem)"
    by (simp add: warmEnv_def)
  have h3: "\<not> isLogicallyExpired (nowFirst warmEnv) freshItem"
    by (simp add: item_defs clock_defs warmEnv_def coldEnv_def freshItem_def)
  have h4: "isEarlyExpired (nowFirst warmEnv) freshItem"
    by (simp add: item_defs clock_defs warmEnv_def coldEnv_def freshItem_def)
  have h5: "\<not> lockIsLocked failingRefresh"
    by (simp add: failingRefresh_def)
  have h6: "exclusiveAcquire failingRefresh = Inr ()"
    by (simp add: failingRefresh_def)
  have h7: "factoryResult failingRefresh = Inl (FactoryError ''boom'')"
    by (simp add: failingRefresh_def)
  have h7': "factoryResult failingRefresh = Inl (FactoryError ''boom'')
      \<or> (factoryResult failingRefresh = Inr ''6''
          \<and> writerSetResult failingRefresh = Inl (FactoryError ''boom''))"
    using h7 by simp
  have v: "getValue freshItem = ''5''"
    by (simp add: getValue_def freshItem_def)
  show ?thesis
    using h1 h2 h3 h4 h5 h6 h7 v
      early_refresh_logs_and_rethrows [OF h1 h2 h3 h4 h5 h6 h7', where k = "''k''" and opts = exampleOptions]
    by simp
qed

section \<open>Paths that leave the lock held\<close>

text \<open>
  Claim C1 says that the releaser of an acquired lock is invoked exactly once on every
  path out of \<open>handle\<close>, the paths on which the L1 re-read or the L2 read throws included.
  On those two paths \<open>handle\<close> rejects with the driver's error after the acquisition and
  performs no release at all, and the factory runner, which could release, is never called.
\<close>

theorem handle_keeps_lock_when_read_raises:
  "handle rereadRaisesEnv exampleStack ''k'' exampleOptions =
     (Inl (DriverError ''l1 unavailable''),
      [L1Get ''k'', GetOrCreateForKey ''k'' (Some 500), Acquire ''k'',
       Log LTrace ''acquired lock'', L1Get ''k''])
   \<and> filter isLocksRelease (snd (handle rereadRaisesEnv exampleStack ''k'' exampleOptions)) = []
   \<and> handle remoteReadRaisesEnv exampleStack ''k'' exampleOptions =
     (Inl (DriverError ''l2 unavailable''),
      [L1Get ''k'', GetOrCreateForKey ''k'' (Some 500), Acquire ''k'',
       Log LTrace ''acquired lock'', L1Get ''k'', L2Get ''k''])
   \<and> filter isLocksRelease (snd (handle remoteReadRaisesEnv exampleStack ''k'' exampleOptions)) = []"
  by (simp add: handler_defs item_defs clock_defs rereadRaisesEnv_def
      remoteReadRaisesEnv_def coldEnv_def exampleStack_def exampleOptions_def)

end
